theory Spec2Isabelle
  imports Main
begin

section \<open>Data model of \<open>endpoints.py\<close>\<close>

text \<open>
  A \<open>datetime\<close> is modelled by its position on the time line (an integer count of
  ticks). The store keeps the value it is given and hands the same value back; its
  \<open>ORDER BY\<close> compares these values. Python's \<open>int\<close> is unbounded, hence \<open>int\<close>; the
  limits of the storage engine (the range of an \<open>INTEGER\<close> column, the size of the file)
  are outside the model, which holds every value the handlers write.
\<close>

type_synonym datetime = int

text \<open>
  Everything a handler can raise: \<open>HTTPException(status_code, detail)\<close> of FastAPI,
  the \<open>ValidationError\<close> of a pydantic model (model name and the fields that are
  missing or \<open>None\<close> though required), the \<open>OperationalError\<close> and
  \<open>IntegrityError\<close> of \<open>sqlite3\<close>, and Python's \<open>TypeError\<close>.
\<close>

datatype error =
    HTTPException nat string
  | ValidationError string "string list"
  | OperationalError string
  | IntegrityError string
  | TypeError string

subsection \<open>The three tables (\<open>create_new_database\<close>)\<close>

text \<open>
  A row of a table. A column declared \<open>NOT NULL\<close> (or the primary key) holds a value,
  any other column holds a value or \<open>NULL\<close> (\<open>None\<close>).
\<close>

record batch_id_row =
  b_Batch_ID :: int
  b_RawWeight :: int
  b_InTimeRaw :: datetime
  b_InTimeWet :: "datetime option"
  b_OutTimeWet :: "datetime option"
  b_WetWeight :: "int option"
  b_InTimeDry :: "datetime option"
  b_OutTimeDry :: "datetime option"
  b_DryWeight :: "int option"
  b_InTimePowder :: "datetime option"
  b_OutTimePowder :: "datetime option"
  b_PowderWeight :: "int option"
  b_Status :: string
  b_Centra_ID :: int
  b_Package_ID :: "int option"
  b_WeightRescale :: "int option"

record centra_row =
  c_Centra_ID :: int
  c_CentraName :: string
  c_CentraAddress :: string
  c_NumberOfEmployees :: int

record delivery_row =
  d_Package_ID :: int
  d_Status :: string
  d_InDeliveryTime :: datetime
  d_OutDeliveryTime :: "datetime option"
  d_ExpeditionType :: string

text \<open>The column names of table \<open>delivery\<close>, as \<open>CREATE TABLE\<close> lists them.\<close>

definition delivery_columns :: "string list" where
  "delivery_columns =
     [''Package_ID'', ''Status'', ''InDeliveryTime'', ''OutDeliveryTime'', ''ExpeditionType'']"

text \<open>
  The database file: the rows of each table in insertion order, and for each table the
  largest key it has ever generated (what \<open>AUTOINCREMENT\<close> keeps in
  \<open>sqlite_sequence\<close>).
\<close>

record store =
  tbl_batch_id :: "batch_id_row list"
  tbl_centra :: "centra_row list"
  tbl_delivery :: "delivery_row list"
  seq_batch_id :: int
  seq_centra :: int
  seq_delivery :: int

text \<open>The store \<open>create_new_database\<close> leaves: three empty tables.\<close>

definition create_new_database :: store where
  "create_new_database =
     \<lparr> tbl_batch_id = [], tbl_centra = [], tbl_delivery = [],
       seq_batch_id = 0, seq_centra = 0, seq_delivery = 0 \<rparr>"

subsection \<open>The pydantic models\<close>

record Batch =
  Batch_ID :: int
  RawWeight :: int
  InTimeRaw :: datetime
  InTimeWet :: "datetime option"
  OutTimeWet :: "datetime option"
  WetWeight :: "int option"
  InTimeDry :: "datetime option"
  OutTimeDry :: "datetime option"
  DryWeight :: "int option"
  InTimePowder :: "datetime option"
  OutTimePowder :: "datetime option"
  PowderWeight :: "int option"
  Status :: string
  Centra_ID :: int
  Package_ID :: "int option"
  WeightRescale :: "int option"

text \<open>
  The keyword arguments of a call \<open>Batch(...)\<close>: \<open>None\<close> is an argument that is not
  passed, or passed as \<open>None\<close>.
\<close>

record Batch_kwargs =
  kw_Batch_ID :: "int option"
  kw_RawWeight :: "int option"
  kw_InTimeRaw :: "datetime option"
  kw_InTimeWet :: "datetime option"
  kw_OutTimeWet :: "datetime option"
  kw_WetWeight :: "int option"
  kw_InTimeDry :: "datetime option"
  kw_OutTimeDry :: "datetime option"
  kw_DryWeight :: "int option"
  kw_InTimePowder :: "datetime option"
  kw_OutTimePowder :: "datetime option"
  kw_PowderWeight :: "int option"
  kw_Status :: "string option"
  kw_Centra_ID :: "int option"
  kw_Package_ID :: "int option"
  kw_WeightRescale :: "int option"


record WetWeight_model =
  ww_WetWeight :: int
  ww_InTimeWet :: datetime
  ww_OutTimeWet :: datetime

record DryWeight_model =
  dw_DryWeight :: int
  dw_InTimeDry :: datetime
  dw_OutTimeDry :: datetime

record PowderWeight_model =
  pw_PowderWeight :: int
  pw_InTimePowder :: datetime
  pw_OutTimePowder :: datetime

record DeliveryInfo =
  di_Package_ID :: int
  di_Status :: string
  di_InDeliveryTime :: datetime
  di_ExpeditionType :: string

record UpdateStatus =
  us_Status :: string

record OutDelivery =
  od_OutDeliveryTime :: datetime
  od_WeightRescale :: int

record BatchUpdateStatus =
  bus_Batch_IDs :: "int list"
  bus_Status :: string

record AddWetWeight =
  aw_InTimeWet :: datetime
  aw_OutTimeWet :: datetime
  aw_WetWeight :: int

record AddDryWeight =
  ad_InTimeDry :: datetime
  ad_OutTimeDry :: datetime
  ad_DryWeight :: int

record AddPowderWeight =
  ap_InTimePowder :: datetime
  ap_OutTimePowder :: datetime
  ap_PowderWeight :: int


record NewBatch =
  nb_RawWeight :: int
  nb_Status :: string
  nb_Centra_ID :: int
  nb_InTimeRaw :: datetime

record NewPackage =
  np_InDeliveryTime :: datetime
  np_ExpeditionType :: string
  np_Status :: string

record UpdatePackageID =
  up_Package_ID :: int

record Centra =
  ce_Centra_ID :: int
  ce_CentraName :: string
  ce_CentraAddress :: string
  ce_NumberOfEmployees :: int

record NewCentra =
  nc_CentraName :: string
  nc_CentraAddress :: string
  nc_NumberOfEmployees :: int

text \<open>
  A field of \<open>UpdateCentra\<close> is \<open>Optional[...] = None\<close>: the request leaves it out
  (\<open>Unset\<close>), or sets it, to a value or to \<open>null\<close>. \<open>dict(exclude_unset=True)\<close>
  tells the two apart.
\<close>

datatype 'a field = Unset | Set "'a option"

record UpdateCentra =
  uc_CentraName :: "string field"
  uc_CentraAddress :: "string field"
  uc_NumberOfEmployees :: "int field"

section \<open>What the handlers are built from\<close>

subsection \<open>Model construction\<close>

text \<open>A required field of a model that gets no value is reported by name.\<close>

definition missing :: "string \<Rightarrow> 'a option \<Rightarrow> string list" where
  "missing name v = (case v of None \<Rightarrow> [name] | Some _ \<Rightarrow> [])"

text \<open>
  \<open>Batch(...)\<close>: \<open>Batch_ID\<close>, \<open>RawWeight\<close>, \<open>InTimeRaw\<close>, \<open>Status\<close> and \<open>Centra_ID\<close> are
  declared without a default, so pydantic raises when one of them is not given; the
  other fields are \<open>Optional[...] = None\<close>.
\<close>

definition Batch_init :: "Batch_kwargs \<Rightarrow> error + Batch" where
  "Batch_init kw =
     (let errs = missing ''Batch_ID'' (kw_Batch_ID kw) @ missing ''RawWeight'' (kw_RawWeight kw)
               @ missing ''InTimeRaw'' (kw_InTimeRaw kw) @ missing ''Status'' (kw_Status kw)
               @ missing ''Centra_ID'' (kw_Centra_ID kw)
      in if errs \<noteq> [] then Inl (ValidationError ''Batch'' errs)
         else Inr \<lparr> Batch_ID = the (kw_Batch_ID kw), RawWeight = the (kw_RawWeight kw),
                    InTimeRaw = the (kw_InTimeRaw kw), InTimeWet = kw_InTimeWet kw,
                    OutTimeWet = kw_OutTimeWet kw, WetWeight = kw_WetWeight kw,
                    InTimeDry = kw_InTimeDry kw, OutTimeDry = kw_OutTimeDry kw,
                    DryWeight = kw_DryWeight kw, InTimePowder = kw_InTimePowder kw,
                    OutTimePowder = kw_OutTimePowder kw, PowderWeight = kw_PowderWeight kw,
                    Status = the (kw_Status kw), Centra_ID = the (kw_Centra_ID kw),
                    Package_ID = kw_Package_ID kw, WeightRescale = kw_WeightRescale kw \<rparr>)"

text \<open>A call \<open>Batch(Batch_ID=...)\<close> passes this one argument and no other.\<close>

definition only_Batch_ID :: "int \<Rightarrow> Batch_kwargs" where
  "only_Batch_ID i =
     \<lparr> kw_Batch_ID = Some i, kw_RawWeight = None, kw_InTimeRaw = None, kw_InTimeWet = None,
       kw_OutTimeWet = None, kw_WetWeight = None, kw_InTimeDry = None, kw_OutTimeDry = None,
       kw_DryWeight = None, kw_InTimePowder = None, kw_OutTimePowder = None,
       kw_PowderWeight = None, kw_Status = None, kw_Centra_ID = None, kw_Package_ID = None,
       kw_WeightRescale = None \<rparr>"

text \<open>The sixteen keyword arguments that \<open>get_all_batches\<close> and \<open>delete_batch\<close> read off a row.\<close>

definition row_kwargs :: "batch_id_row \<Rightarrow> Batch_kwargs" where
  "row_kwargs batch =
     \<lparr> kw_Batch_ID = Some (b_Batch_ID batch), kw_RawWeight = Some (b_RawWeight batch),
       kw_InTimeRaw = Some (b_InTimeRaw batch), kw_InTimeWet = b_InTimeWet batch,
       kw_OutTimeWet = b_OutTimeWet batch, kw_WetWeight = b_WetWeight batch,
       kw_InTimeDry = b_InTimeDry batch, kw_OutTimeDry = b_OutTimeDry batch,
       kw_DryWeight = b_DryWeight batch, kw_InTimePowder = b_InTimePowder batch,
       kw_OutTimePowder = b_OutTimePowder batch, kw_PowderWeight = b_PowderWeight batch,
       kw_Status = Some (b_Status batch), kw_Centra_ID = Some (b_Centra_ID batch),
       kw_Package_ID = b_Package_ID batch, kw_WeightRescale = b_WeightRescale batch \<rparr>"

text \<open>The \<open>Batch\<close> whose fields are the columns of a row.\<close>

definition Batch_of :: "batch_id_row \<Rightarrow> Batch" where
  "Batch_of batch =
     \<lparr> Batch_ID = b_Batch_ID batch, RawWeight = b_RawWeight batch,
       InTimeRaw = b_InTimeRaw batch, InTimeWet = b_InTimeWet batch,
       OutTimeWet = b_OutTimeWet batch, WetWeight = b_WetWeight batch,
       InTimeDry = b_InTimeDry batch, OutTimeDry = b_OutTimeDry batch,
       DryWeight = b_DryWeight batch, InTimePowder = b_InTimePowder batch,
       OutTimePowder = b_OutTimePowder batch, PowderWeight = b_PowderWeight batch,
       Status = b_Status batch, Centra_ID = b_Centra_ID batch,
       Package_ID = b_Package_ID batch, WeightRescale = b_WeightRescale batch \<rparr>"

text \<open>
  The stage models declare all three fields as required (\<open>int\<close>, \<open>datetime\<close>), so a
  \<open>NULL\<close> read from the row is refused.
\<close>

definition WetWeight_init ::
  "int option \<Rightarrow> datetime option \<Rightarrow> datetime option \<Rightarrow> error + WetWeight_model" where
  "WetWeight_init w i out =
     (let errs = missing ''WetWeight'' w @ missing ''InTimeWet'' i @ missing ''OutTimeWet'' out
      in if errs \<noteq> [] then Inl (ValidationError ''WetWeight'' errs)
         else Inr \<lparr> ww_WetWeight = the w, ww_InTimeWet = the i, ww_OutTimeWet = the out \<rparr>)"

definition DryWeight_init ::
  "int option \<Rightarrow> datetime option \<Rightarrow> datetime option \<Rightarrow> error + DryWeight_model" where
  "DryWeight_init w i out =
     (let errs = missing ''DryWeight'' w @ missing ''InTimeDry'' i @ missing ''OutTimeDry'' out
      in if errs \<noteq> [] then Inl (ValidationError ''DryWeight'' errs)
         else Inr \<lparr> dw_DryWeight = the w, dw_InTimeDry = the i, dw_OutTimeDry = the out \<rparr>)"

definition PowderWeight_init ::
  "int option \<Rightarrow> datetime option \<Rightarrow> datetime option \<Rightarrow> error + PowderWeight_model" where
  "PowderWeight_init w i out =
     (let errs = missing ''PowderWeight'' w @ missing ''InTimePowder'' i
               @ missing ''OutTimePowder'' out
      in if errs \<noteq> [] then Inl (ValidationError ''PowderWeight'' errs)
         else Inr \<lparr> pw_PowderWeight = the w, pw_InTimePowder = the i, pw_OutTimePowder = the out \<rparr>)"

text \<open>
  \<open>DeliveryInfo(...)\<close>, \<open>Centra(...)\<close> and \<open>WeightInfo(...)\<close> are only ever called with
  \<open>NOT NULL\<close> columns or required request fields, which always validate.
\<close>

definition DeliveryInfo_of :: "delivery_row \<Rightarrow> DeliveryInfo" where
  "DeliveryInfo_of package =
     \<lparr> di_Package_ID = d_Package_ID package, di_Status = d_Status package,
       di_InDeliveryTime = d_InDeliveryTime package,
       di_ExpeditionType = d_ExpeditionType package \<rparr>"

definition Centra_of :: "centra_row \<Rightarrow> Centra" where
  "Centra_of c =
     \<lparr> ce_Centra_ID = c_Centra_ID c, ce_CentraName = c_CentraName c,
       ce_CentraAddress = c_CentraAddress c, ce_NumberOfEmployees = c_NumberOfEmployees c \<rparr>"


text \<open>A list comprehension \<open>[f(x) for x in xs]\<close> stops at the first call that raises.\<close>

fun comprehension :: "('a \<Rightarrow> error + 'b) \<Rightarrow> 'a list \<Rightarrow> error + 'b list" where
  "comprehension f [] = Inr []"
| "comprehension f (x # xs) =
     (case f x of
        Inl e \<Rightarrow> Inl e
      | Inr y \<Rightarrow> (case comprehension f xs of Inl e \<Rightarrow> Inl e | Inr ys \<Rightarrow> Inr (y # ys)))"

subsection \<open>Statements\<close>

text \<open>\<open>fetchone()\<close>: the first row of the result, or \<open>None\<close>.\<close>

fun fetchone :: "'a list \<Rightarrow> 'a option" where
  "fetchone [] = None"
| "fetchone (x # xs) = Some x"

text \<open>
  The key an \<open>INTEGER PRIMARY KEY AUTOINCREMENT\<close> column gets on \<open>INSERT\<close>
  (\<open>cursor.lastrowid\<close>): one more than the largest key the table holds or has ever
  generated.
\<close>

definition lastrowid :: "int \<Rightarrow> int list \<Rightarrow> int" where
  "lastrowid seq keys = fold max keys (max seq 0) + 1"

text \<open>
  Preparing a statement fails on the first column it names that the table does not
  have.
\<close>

definition no_such_column :: "string list \<Rightarrow> string list \<Rightarrow> string option" where
  "no_such_column table_columns named = fetchone (filter (\<lambda>c. c \<notin> set table_columns) named)"

section \<open>The handlers\<close>

text \<open>
  A handler that only reads maps the store to what it returns or raises. A handler that
  writes also returns the store it leaves: what it has committed, and the store as it
  found it when it raises before \<open>conn.commit()\<close>.
\<close>

subsection \<open>Reading\<close>



definition get_wet_weight :: "int \<Rightarrow> store \<Rightarrow> error + WetWeight_model" where
  "get_wet_weight batch_id s =
     (case fetchone (filter (\<lambda>r. b_Batch_ID r = batch_id) (tbl_batch_id s)) of
        None \<Rightarrow> Inl (HTTPException 404 ''Batch not found'')
      | Some wet \<Rightarrow> WetWeight_init (b_WetWeight wet) (b_InTimeWet wet) (b_OutTimeWet wet))"



text \<open>
  The join \<open>delivery d JOIN batch_id b ON b.Package_ID = d.Package_ID\<close>: a batch whose
  \<open>Package_ID\<close> is \<open>NULL\<close> joins no delivery row.
\<close>

definition get_delivery_info :: "int \<Rightarrow> store \<Rightarrow> error + DeliveryInfo" where
  "get_delivery_info batch_id s =
     (case fetchone
             (concat (map (\<lambda>d. map (\<lambda>b. d)
                                  (filter (\<lambda>b. b_Package_ID b = Some (d_Package_ID d)
                                               \<and> b_Batch_ID b = batch_id) (tbl_batch_id s)))
                          (tbl_delivery s))) of
        None \<Rightarrow> Inl (HTTPException 404 ''Batch not found'')
      | Some delivery \<Rightarrow> Inr (DeliveryInfo_of delivery))"



definition get_all_batches_from_centra :: "int \<Rightarrow> store \<Rightarrow> error + Batch list" where
  "get_all_batches_from_centra centra_id s =
     comprehension (\<lambda>batch. Batch_init (only_Batch_ID (b_Batch_ID batch)))
       (filter (\<lambda>r. b_Centra_ID r = centra_id) (tbl_batch_id s))"


subsection \<open>Creating\<close>

text \<open>
  \<open>add_batch\<close> inserts, commits, and then builds its response with the call
  \<open>Batch(Batch_ID=batch_id)\<close>.
\<close>

definition add_batch :: "NewBatch \<Rightarrow> store \<Rightarrow> (error + Batch) \<times> store" where
  "add_batch batch s =
     (let batch_id = lastrowid (seq_batch_id s) (map b_Batch_ID (tbl_batch_id s));
          s' = s \<lparr> tbl_batch_id := tbl_batch_id s @
                      [\<lparr> b_Batch_ID = batch_id, b_RawWeight = nb_RawWeight batch,
                         b_InTimeRaw = nb_InTimeRaw batch, b_InTimeWet = None,
                         b_OutTimeWet = None, b_WetWeight = None, b_InTimeDry = None,
                         b_OutTimeDry = None, b_DryWeight = None, b_InTimePowder = None,
                         b_OutTimePowder = None, b_PowderWeight = None,
                         b_Status = nb_Status batch, b_Centra_ID = nb_Centra_ID batch,
                         b_Package_ID = None, b_WeightRescale = None \<rparr>],
                   seq_batch_id := batch_id \<rparr>
      in (Batch_init (only_Batch_ID batch_id), s'))"

definition add_package :: "NewPackage \<Rightarrow> store \<Rightarrow> (error + DeliveryInfo) \<times> store" where
  "add_package package s =
     (let package_id = lastrowid (seq_delivery s) (map d_Package_ID (tbl_delivery s));
          s' = s \<lparr> tbl_delivery := tbl_delivery s @
                      [\<lparr> d_Package_ID = package_id, d_Status = np_Status package,
                         d_InDeliveryTime = np_InDeliveryTime package,
                         d_OutDeliveryTime = None,
                         d_ExpeditionType = np_ExpeditionType package \<rparr>],
                   seq_delivery := package_id \<rparr>
      in (Inr \<lparr> di_Package_ID = package_id, di_Status = np_Status package,
                 di_InDeliveryTime = np_InDeliveryTime package,
                 di_ExpeditionType = np_ExpeditionType package \<rparr>, s'))"

definition add_centra :: "NewCentra \<Rightarrow> store \<Rightarrow> (error + Centra) \<times> store" where
  "add_centra centra s =
     (let centra_id = lastrowid (seq_centra s) (map c_Centra_ID (tbl_centra s));
          s' = s \<lparr> tbl_centra := tbl_centra s @
                      [\<lparr> c_Centra_ID = centra_id, c_CentraName = nc_CentraName centra,
                         c_CentraAddress = nc_CentraAddress centra,
                         c_NumberOfEmployees = nc_NumberOfEmployees centra \<rparr>],
                   seq_centra := centra_id \<rparr>
      in (Inr \<lparr> ce_Centra_ID = centra_id, ce_CentraName = nc_CentraName centra,
                 ce_CentraAddress = nc_CentraAddress centra,
                 ce_NumberOfEmployees = nc_NumberOfEmployees centra \<rparr>, s'))"

subsection \<open>Updating\<close>

definition update_package_status ::
  "int \<Rightarrow> UpdateStatus \<Rightarrow> store \<Rightarrow> (error + UpdateStatus) \<times> store" where
  "update_package_status package_id status s =
     (Inr status,
      s \<lparr> tbl_delivery :=
            map (\<lambda>d. if d_Package_ID d = package_id then d \<lparr> d_Status := us_Status status \<rparr>
                      else d) (tbl_delivery s) \<rparr>)"

text \<open>
  \<open>update_delivery_status\<close> tests the fetched row against \<open>None\<close>, then reads the row's
  \<open>Package_ID\<close>, which may be \<open>NULL\<close>; \<open>WHERE Package_ID = NULL\<close> selects no row.
\<close>

definition update_delivery_status ::
  "int \<Rightarrow> UpdateStatus \<Rightarrow> store \<Rightarrow> (error + UpdateStatus) \<times> store" where
  "update_delivery_status batch_id status s =
     (case fetchone (filter (\<lambda>r. b_Batch_ID r = batch_id) (tbl_batch_id s)) of
        None \<Rightarrow> (Inl (HTTPException 404 ''Batch not found''), s)
      | Some row \<Rightarrow>
          (let package_id = b_Package_ID row
           in (Inr status,
               s \<lparr> tbl_delivery :=
                     map (\<lambda>d. if Some (d_Package_ID d) = package_id
                               then d \<lparr> d_Status := us_Status status \<rparr> else d)
                         (tbl_delivery s) \<rparr>)))"

text \<open>
  \<open>update_outdelivery\<close> runs \<open>UPDATE delivery SET OutDeliveryTime = ?, WeightRescale = ?\<close>
  on the row whose key the subquery selects (the \<open>Package_ID\<close> of the first row of the
  batch). Table \<open>delivery\<close> has no column \<open>WeightRescale\<close>, so there is nothing the
  second assignment could write.
\<close>

definition update_outdelivery ::
  "int \<Rightarrow> OutDelivery \<Rightarrow> store \<Rightarrow> (error + OutDelivery) \<times> store" where
  "update_outdelivery batch_id outdelivery s =
     (case no_such_column delivery_columns [''OutDeliveryTime'', ''WeightRescale''] of
        Some c \<Rightarrow> (Inl (OperationalError (''no such column: '' @ c)), s)
      | None \<Rightarrow>
          (let package_id =
                 (case fetchone (filter (\<lambda>r. b_Batch_ID r = batch_id) (tbl_batch_id s)) of
                    None \<Rightarrow> None | Some row \<Rightarrow> b_Package_ID row)
           in (Inr outdelivery,
               s \<lparr> tbl_delivery :=
                     map (\<lambda>d. if Some (d_Package_ID d) = package_id
                               then d \<lparr> d_OutDeliveryTime :=
                                          Some (od_OutDeliveryTime outdelivery) \<rparr>
                               else d)
                         (tbl_delivery s) \<rparr>)))"

text \<open>One \<open>UPDATE batch_id SET Status = ? WHERE Batch_ID = ?\<close>, and the loop over the listed IDs.\<close>

definition set_batch_status :: "string \<Rightarrow> int \<Rightarrow> batch_id_row list \<Rightarrow> batch_id_row list" where
  "set_batch_status status batch_id rows =
     map (\<lambda>r. if b_Batch_ID r = batch_id then r \<lparr> b_Status := status \<rparr> else r) rows"

definition update_batches_status ::
  "BatchUpdateStatus \<Rightarrow> store \<Rightarrow> (error + BatchUpdateStatus) \<times> store" where
  "update_batches_status batch_update s =
     (Inr batch_update,
      s \<lparr> tbl_batch_id :=
            fold (set_batch_status (bus_Status batch_update)) (bus_Batch_IDs batch_update)
              (tbl_batch_id s) \<rparr>)"

definition add_wet_weight ::
  "int \<Rightarrow> AddWetWeight \<Rightarrow> store \<Rightarrow> (error + WetWeight_model) \<times> store" where
  "add_wet_weight batch_id wet s =
     (WetWeight_init (Some (aw_WetWeight wet)) (Some (aw_InTimeWet wet))
        (Some (aw_OutTimeWet wet)),
      s \<lparr> tbl_batch_id :=
            map (\<lambda>r. if b_Batch_ID r = batch_id
                      then r \<lparr> b_InTimeWet := Some (aw_InTimeWet wet),
                               b_OutTimeWet := Some (aw_OutTimeWet wet),
                               b_WetWeight := Some (aw_WetWeight wet) \<rparr>
                      else r) (tbl_batch_id s) \<rparr>)"

definition add_dry_weight ::
  "int \<Rightarrow> AddDryWeight \<Rightarrow> store \<Rightarrow> (error + DryWeight_model) \<times> store" where
  "add_dry_weight batch_id dry s =
     (DryWeight_init (Some (ad_DryWeight dry)) (Some (ad_InTimeDry dry))
        (Some (ad_OutTimeDry dry)),
      s \<lparr> tbl_batch_id :=
            map (\<lambda>r. if b_Batch_ID r = batch_id
                      then r \<lparr> b_InTimeDry := Some (ad_InTimeDry dry),
                               b_OutTimeDry := Some (ad_OutTimeDry dry),
                               b_DryWeight := Some (ad_DryWeight dry) \<rparr>
                      else r) (tbl_batch_id s) \<rparr>)"

definition add_powder_weight ::
  "int \<Rightarrow> AddPowderWeight \<Rightarrow> store \<Rightarrow> (error + PowderWeight_model) \<times> store" where
  "add_powder_weight batch_id powder s =
     (PowderWeight_init (Some (ap_PowderWeight powder)) (Some (ap_InTimePowder powder))
        (Some (ap_OutTimePowder powder)),
      s \<lparr> tbl_batch_id :=
            map (\<lambda>r. if b_Batch_ID r = batch_id
                      then r \<lparr> b_InTimePowder := Some (ap_InTimePowder powder),
                               b_OutTimePowder := Some (ap_OutTimePowder powder),
                               b_PowderWeight := Some (ap_PowderWeight powder) \<rparr>
                      else r) (tbl_batch_id s) \<rparr>)"

text \<open>
  \<open>update_package_id\<close> updates, commits, and then builds its response with the call
  \<open>Batch(Batch_ID=batch_id)\<close>.
\<close>

definition update_package_id ::
  "int \<Rightarrow> UpdatePackageID \<Rightarrow> store \<Rightarrow> (error + Batch) \<times> store" where
  "update_package_id batch_id package s =
     (Batch_init (only_Batch_ID batch_id),
      s \<lparr> tbl_batch_id :=
            map (\<lambda>r. if b_Batch_ID r = batch_id
                      then r \<lparr> b_Package_ID := Some (up_Package_ID package) \<rparr> else r)
                (tbl_batch_id s) \<rparr>)"

text \<open>
  \<open>centra.dict(exclude_unset=True)\<close>: the fields the request sets, in the order the model
  declares them, each with its value (\<open>None\<close> for \<open>null\<close>).
\<close>

datatype centra_item =
    CentraName "string option"
  | CentraAddress "string option"
  | NumberOfEmployees "int option"

definition dict_exclude_unset :: "UpdateCentra \<Rightarrow> centra_item list" where
  "dict_exclude_unset centra =
     (case uc_CentraName centra of Unset \<Rightarrow> [] | Set v \<Rightarrow> [CentraName v])
     @ (case uc_CentraAddress centra of Unset \<Rightarrow> [] | Set v \<Rightarrow> [CentraAddress v])
     @ (case uc_NumberOfEmployees centra of Unset \<Rightarrow> [] | Set v \<Rightarrow> [NumberOfEmployees v])"

text \<open>
  \<open>UPDATE centra SET {key} = ? WHERE Centra_ID = ?\<close>. All three columns are \<open>NOT NULL\<close>:
  writing \<open>NULL\<close> into a row raises \<open>IntegrityError\<close>.
\<close>

fun update_centra_column :: "centra_item \<Rightarrow> int \<Rightarrow> centra_row list \<Rightarrow> error + centra_row list" where
  "update_centra_column (CentraName v) centra_id rows =
     (case v of
        None \<Rightarrow> if centra_id \<in> set (map c_Centra_ID rows)
                then Inl (IntegrityError ''NOT NULL constraint failed: centra.CentraName'')
                else Inr rows
      | Some x \<Rightarrow> Inr (map (\<lambda>r. if c_Centra_ID r = centra_id then r \<lparr> c_CentraName := x \<rparr>
                                else r) rows))"
| "update_centra_column (CentraAddress v) centra_id rows =
     (case v of
        None \<Rightarrow> if centra_id \<in> set (map c_Centra_ID rows)
                then Inl (IntegrityError ''NOT NULL constraint failed: centra.CentraAddress'')
                else Inr rows
      | Some x \<Rightarrow> Inr (map (\<lambda>r. if c_Centra_ID r = centra_id then r \<lparr> c_CentraAddress := x \<rparr>
                                else r) rows))"
| "update_centra_column (NumberOfEmployees v) centra_id rows =
     (case v of
        None \<Rightarrow> if centra_id \<in> set (map c_Centra_ID rows)
                then Inl (IntegrityError
                            ''NOT NULL constraint failed: centra.NumberOfEmployees'')
                else Inr rows
      | Some x \<Rightarrow> Inr (map (\<lambda>r. if c_Centra_ID r = centra_id
                                then r \<lparr> c_NumberOfEmployees := x \<rparr> else r) rows))"

text \<open>The loop \<open>for key, value in update_data.items()\<close>; an exception ends it.\<close>

fun update_centra_loop :: "centra_item list \<Rightarrow> int \<Rightarrow> centra_row list \<Rightarrow> error + centra_row list" where
  "update_centra_loop [] centra_id rows = Inr rows"
| "update_centra_loop (item # items) centra_id rows =
     (case update_centra_column item centra_id rows of
        Inl e \<Rightarrow> Inl e
      | Inr rows' \<Rightarrow> update_centra_loop items centra_id rows')"

text \<open>
  \<open>update_centra\<close>. An exception in the loop leaves before \<open>conn.commit()\<close>, so none of the
  loop's updates reaches the store. Subscripting \<open>None\<close> after the second \<open>SELECT\<close> would
  be a \<open>TypeError\<close>.
\<close>

definition update_centra :: "int \<Rightarrow> UpdateCentra \<Rightarrow> store \<Rightarrow> (error + Centra) \<times> store" where
  "update_centra centra_id centra s =
     (case fetchone (filter (\<lambda>r. c_Centra_ID r = centra_id) (tbl_centra s)) of
        None \<Rightarrow> (Inl (HTTPException 404 ''Centra not found''), s)
      | Some existing_centra \<Rightarrow>
          (case update_centra_loop (dict_exclude_unset centra) centra_id (tbl_centra s) of
             Inl e \<Rightarrow> (Inl e, s)
           | Inr rows' \<Rightarrow>
               (case fetchone (filter (\<lambda>r. c_Centra_ID r = centra_id) rows') of
                  None \<Rightarrow> (Inl (TypeError ''NoneType object is not subscriptable''),
                           s \<lparr> tbl_centra := rows' \<rparr>)
                | Some updated_centra \<Rightarrow>
                    (Inr (Centra_of updated_centra), s \<lparr> tbl_centra := rows' \<rparr>))))"

subsection \<open>Deleting\<close>

definition delete_centra :: "int \<Rightarrow> store \<Rightarrow> (error + Centra) \<times> store" where
  "delete_centra centra_id s =
     (case fetchone (filter (\<lambda>r. c_Centra_ID r = centra_id) (tbl_centra s)) of
        None \<Rightarrow> (Inl (HTTPException 404 ''Centra not found''), s)
      | Some centra \<Rightarrow>
          (Inr (Centra_of centra),
           s \<lparr> tbl_centra := filter (\<lambda>r. c_Centra_ID r \<noteq> centra_id) (tbl_centra s) \<rparr>))"

definition delete_package :: "int \<Rightarrow> store \<Rightarrow> (error + DeliveryInfo) \<times> store" where
  "delete_package package_id s =
     (case fetchone (filter (\<lambda>r. d_Package_ID r = package_id) (tbl_delivery s)) of
        None \<Rightarrow> (Inl (HTTPException 404 ''Package not found''), s)
      | Some package \<Rightarrow>
          (Inr (DeliveryInfo_of package),
           s \<lparr> tbl_delivery := filter (\<lambda>r. d_Package_ID r \<noteq> package_id) (tbl_delivery s) \<rparr>))"

definition delete_batch :: "int \<Rightarrow> store \<Rightarrow> (error + Batch) \<times> store" where
  "delete_batch batch_id s =
     (case fetchone (filter (\<lambda>r. b_Batch_ID r = batch_id) (tbl_batch_id s)) of
        None \<Rightarrow> (Inl (HTTPException 404 ''Batch not found''), s)
      | Some batch \<Rightarrow>
          (Batch_init (row_kwargs batch),
           s \<lparr> tbl_batch_id := filter (\<lambda>r. b_Batch_ID r \<noteq> batch_id) (tbl_batch_id s) \<rparr>))"

section \<open>Example stores\<close>

text \<open>The row that \<open>POST /batch\<close> with raw weight 10 at time 100 for centra 1 inserts first.\<close>

definition batch1 :: batch_id_row where
  "batch1 =
     \<lparr> b_Batch_ID = 1, b_RawWeight = 10, b_InTimeRaw = 100, b_InTimeWet = None,
       b_OutTimeWet = None, b_WetWeight = None, b_InTimeDry = None, b_OutTimeDry = None,
       b_DryWeight = None, b_InTimePowder = None, b_OutTimePowder = None,
       b_PowderWeight = None, b_Status = ''raw'', b_Centra_ID = 1, b_Package_ID = None,
       b_WeightRescale = None \<rparr>"

definition package1 :: delivery_row where
  "package1 =
     \<lparr> d_Package_ID = 1, d_Status = ''packed'', d_InDeliveryTime = 50,
       d_OutDeliveryTime = None, d_ExpeditionType = ''truck'' \<rparr>"

definition centra1 :: centra_row where
  "centra1 =
     \<lparr> c_Centra_ID = 1, c_CentraName = ''North'', c_CentraAddress = ''Hill Road 4'',
       c_NumberOfEmployees = 12 \<rparr>"

text \<open>One centra, one batch of it that is linked to no package, and one package.\<close>

definition store_unlinked :: store where
  "store_unlinked =
     \<lparr> tbl_batch_id = [batch1], tbl_centra = [centra1], tbl_delivery = [package1],
       seq_batch_id = 1, seq_centra = 1, seq_delivery = 1 \<rparr>"



section \<open>What a partial update of a centra asks for\<close>

text \<open>A field of the request that is set to \<open>null\<close>.\<close>

fun sets_null :: "'a field \<Rightarrow> bool" where
  "sets_null Unset = False"
| "sets_null (Set None) = True"
| "sets_null (Set (Some v)) = False"



section \<open>Basic facts\<close>

lemma missing_simps [simp]: "missing n None = [n]" "missing n (Some v) = []"
  by (simp_all add: missing_def)

lemma Batch_init_only_Batch_ID:
  "Batch_init (only_Batch_ID i) =
     Inl (ValidationError ''Batch'' [''RawWeight'', ''InTimeRaw'', ''Status'', ''Centra_ID''])"
  by (simp add: Batch_init_def only_Batch_ID_def)

lemma Batch_init_row_kwargs: "Batch_init (row_kwargs r) = Inr (Batch_of r)"
  by (simp add: Batch_init_def row_kwargs_def Batch_of_def)




lemma fetchone_filter_Some: "fetchone (filter P xs) = Some x \<Longrightarrow> P x \<and> x \<in> set xs"
  by (induction xs) (auto split: if_splits)


lemma fold_max_ge: "(a::int) \<le> fold max keys a"
  by (induction keys arbitrary: a) (auto intro: order_trans [OF max.cobounded2])

lemma fold_max_mem: "(k::int) \<in> set keys \<Longrightarrow> k \<le> fold max keys a"
proof (induction keys arbitrary: a)
  case Nil
  then show ?case by simp
next
  case (Cons x xs)
  show ?case
  proof (cases "k = x")
    case True
    have "x \<le> max x a" by simp
    also have "\<dots> \<le> fold max xs (max x a)" by (rule fold_max_ge)
    finally show ?thesis using True by simp
  next
    case False
    with Cons show ?thesis by simp
  qed
qed

lemma lastrowid_fresh: "k \<in> set keys \<Longrightarrow> k < lastrowid seq keys"
  using fold_max_mem [of k keys "max seq 0"] by (simp add: lastrowid_def)

lemma lastrowid_not_key: "r \<in> set rows \<Longrightarrow> f r \<noteq> lastrowid seq (map f rows)"
  using lastrowid_fresh [of "f r" "map f rows" seq] by auto

lemma filter_lastrowid: "filter (\<lambda>r. f r = lastrowid seq (map f rows)) rows = []"
  by (simp add: filter_empty_conv lastrowid_not_key)

lemma map_if_no_match: "\<forall>r \<in> set xs. \<not> P r \<Longrightarrow> map (\<lambda>r. if P r then f r else r) xs = xs"
  by (induction xs) auto


section \<open>Creating\<close>

text \<open>
  \<open>add_package\<close> and \<open>add_centra\<close> append one row under a key no row of the table has and
  return the request's fields with that key, built from the request and not read back.
\<close>

lemma add_package_echo:
  "add_package package s =
     (Inr \<lparr> di_Package_ID = lastrowid (seq_delivery s) (map d_Package_ID (tbl_delivery s)),
             di_Status = np_Status package, di_InDeliveryTime = np_InDeliveryTime package,
             di_ExpeditionType = np_ExpeditionType package \<rparr>,
      snd (add_package package s))
   \<and> length (tbl_delivery (snd (add_package package s))) = Suc (length (tbl_delivery s))"
  by (simp add: add_package_def Let_def)

lemma add_centra_echo:
  "add_centra centra s =
     (Inr \<lparr> ce_Centra_ID = lastrowid (seq_centra s) (map c_Centra_ID (tbl_centra s)),
             ce_CentraName = nc_CentraName centra, ce_CentraAddress = nc_CentraAddress centra,
             ce_NumberOfEmployees = nc_NumberOfEmployees centra \<rparr>,
      snd (add_centra centra s))
   \<and> length (tbl_centra (snd (add_centra centra s))) = Suc (length (tbl_centra s))"
  by (simp add: add_centra_def Let_def)

text \<open>
  \<open>add_batch\<close> appends its row as well, but whatever the request, the call
  \<open>Batch(Batch_ID=batch_id)\<close> that builds the response lacks four required fields.
\<close>

lemma add_batch_always_raises:
  "fst (add_batch batch s) =
     Inl (ValidationError ''Batch'' [''RawWeight'', ''InTimeRaw'', ''Status'', ''Centra_ID''])"
  by (simp add: add_batch_def Batch_init_only_Batch_ID Let_def)

text \<open>
  Claim C1: every create handler (\<open>POST /batch\<close>, \<open>POST /package\<close>, \<open>POST /centra\<close>)
  inserts one row and returns the created entity, the request's fields and the generated
  ID. For \<open>POST /batch\<close> the code does otherwise: on the empty store, the request with
  raw weight 10, status \<open>raw\<close>, centra 1 and in-time 100 inserts the row \<open>batch1\<close>, and the
  handler then raises a validation error instead of returning the batch.
\<close>

theorem add_batch_raises:
  "add_batch \<lparr> nb_RawWeight = 10, nb_Status = ''raw'', nb_Centra_ID = 1, nb_InTimeRaw = 100 \<rparr>
     create_new_database =
   (Inl (ValidationError ''Batch'' [''RawWeight'', ''InTimeRaw'', ''Status'', ''Centra_ID'']),
    create_new_database \<lparr> tbl_batch_id := [batch1], seq_batch_id := 1 \<rparr>)"
  by (simp add: add_batch_def Batch_init_only_Batch_ID create_new_database_def lastrowid_def
        batch1_def)

section \<open>The delivery status of a batch\<close>

lemma update_delivery_status_NULL:
  assumes "fetchone (filter (\<lambda>r. b_Batch_ID r = batch_id) (tbl_batch_id s)) = Some row"
    and "b_Package_ID row = None"
  shows "update_delivery_status batch_id status s = (Inr status, s)"
  using assms by (simp add: update_delivery_status_def)

text \<open>
  Claim C2: \<open>PUT /batch/{id}/status\<close> answers 404 \<open>Batch not found\<close> when the batch does
  not exist or has no package. The code answers 404 only for a batch that does not exist:
  for batch 1 of \<open>store_unlinked\<close>, which has no package, it echoes the request and
  changes nothing, where \<open>GET /batch/1/delivery\<close> on the same store answers 404.
\<close>

theorem update_delivery_status_no_package:
  "update_delivery_status 1 \<lparr> us_Status = ''shipped'' \<rparr> store_unlinked
     = (Inr \<lparr> us_Status = ''shipped'' \<rparr>, store_unlinked)
   \<and> get_delivery_info 1 store_unlinked = Inl (HTTPException 404 ''Batch not found'')"
  by (simp add: update_delivery_status_def get_delivery_info_def store_unlinked_def
        batch1_def package1_def)

section \<open>Updates that do not look the row up first\<close>

text \<open>
  The stage updates, the direct package status update and the bulk status update run
  their \<open>UPDATE\<close> and echo the request whether or not a row has the key.
\<close>

lemma add_wet_weight_missing:
  "\<forall>r \<in> set (tbl_batch_id s). b_Batch_ID r \<noteq> batch_id \<Longrightarrow>
   add_wet_weight batch_id wet s =
     (Inr \<lparr> ww_WetWeight = aw_WetWeight wet, ww_InTimeWet = aw_InTimeWet wet,
             ww_OutTimeWet = aw_OutTimeWet wet \<rparr>, s)"
  by (simp add: add_wet_weight_def WetWeight_init_def map_if_no_match)

lemma add_dry_weight_missing:
  "\<forall>r \<in> set (tbl_batch_id s). b_Batch_ID r \<noteq> batch_id \<Longrightarrow>
   add_dry_weight batch_id dry s =
     (Inr \<lparr> dw_DryWeight = ad_DryWeight dry, dw_InTimeDry = ad_InTimeDry dry,
             dw_OutTimeDry = ad_OutTimeDry dry \<rparr>, s)"
  by (simp add: add_dry_weight_def DryWeight_init_def map_if_no_match)

lemma add_powder_weight_missing:
  "\<forall>r \<in> set (tbl_batch_id s). b_Batch_ID r \<noteq> batch_id \<Longrightarrow>
   add_powder_weight batch_id powder s =
     (Inr \<lparr> pw_PowderWeight = ap_PowderWeight powder,
             pw_InTimePowder = ap_InTimePowder powder,
             pw_OutTimePowder = ap_OutTimePowder powder \<rparr>, s)"
  by (simp add: add_powder_weight_def PowderWeight_init_def map_if_no_match)

lemma update_package_status_missing:
  "\<forall>r \<in> set (tbl_delivery s). d_Package_ID r \<noteq> package_id \<Longrightarrow>
   update_package_status package_id status s = (Inr status, s)"
  by (simp add: update_package_status_def map_if_no_match)

text \<open>
  The bulk update sets the status on exactly the rows whose ID is listed; an ID that no
  row has changes nothing, and the response is the request.
\<close>

lemma fold_set_batch_status:
  "fold (set_batch_status st) ids rows =
     map (\<lambda>r. if b_Batch_ID r \<in> set ids then r \<lparr> b_Status := st \<rparr> else r) rows"
proof (induction ids arbitrary: rows)
  case Nil
  then show ?case by simp
next
  case (Cons i ids)
  have "fold (set_batch_status st) (i # ids) rows
          = fold (set_batch_status st) ids (set_batch_status st i rows)" by simp
  also have "\<dots> = map (\<lambda>r. if b_Batch_ID r \<in> set ids then r \<lparr> b_Status := st \<rparr> else r)
                       (set_batch_status st i rows)" by (rule Cons.IH)
  also have "\<dots> = map (\<lambda>r. if b_Batch_ID r \<in> set (i # ids) then r \<lparr> b_Status := st \<rparr> else r) rows"
    by (simp add: set_batch_status_def)
  finally show ?case .
qed

lemma update_batches_status_echo:
  "update_batches_status batch_update s =
     (Inr batch_update,
      s \<lparr> tbl_batch_id :=
            map (\<lambda>r. if b_Batch_ID r \<in> set (bus_Batch_IDs batch_update)
                      then r \<lparr> b_Status := bus_Status batch_update \<rparr> else r) (tbl_batch_id s) \<rparr>)"
  by (simp add: update_batches_status_def fold_set_batch_status)

text \<open>
  The package link and the out-delivery update raise on every request: the first builds
  its response as \<open>Batch(Batch_ID=batch_id)\<close> after committing, the second names a column
  that table \<open>delivery\<close> does not have.
\<close>

lemma update_package_id_always_raises:
  "fst (update_package_id batch_id package s) =
     Inl (ValidationError ''Batch'' [''RawWeight'', ''InTimeRaw'', ''Status'', ''Centra_ID''])"
  by (simp add: update_package_id_def Batch_init_only_Batch_ID)

lemma update_outdelivery_always_raises:
  "update_outdelivery batch_id outdelivery s =
     (Inl (OperationalError ''no such column: WeightRescale''), s)"
  by (simp add: update_outdelivery_def no_such_column_def delivery_columns_def)

text \<open>
  Claim C3: an update handler that does not check existence first (stage updates,
  package link, direct package status, out-delivery, bulk status) raises no error when
  its target ID matches no row, and echoes the request. For the package link and the
  out-delivery update the code does otherwise: on the empty store, where batch 5 does not
  exist, \<open>PUT /batch/5/package\<close> raises a validation error and \<open>PUT /batch/5/outdelivery\<close>
  raises \<open>no such column: WeightRescale\<close>.
\<close>

theorem update_without_check_raises:
  "update_package_id 5 \<lparr> up_Package_ID = 3 \<rparr> create_new_database =
     (Inl (ValidationError ''Batch'' [''RawWeight'', ''InTimeRaw'', ''Status'', ''Centra_ID'']),
      create_new_database)
   \<and> update_outdelivery 5 \<lparr> od_OutDeliveryTime = 200, od_WeightRescale = 9 \<rparr>
        create_new_database =
     (Inl (OperationalError ''no such column: WeightRescale''), create_new_database)"
  by (simp add: update_package_id_def update_outdelivery_def Batch_init_only_Batch_ID
        no_such_column_def delivery_columns_def create_new_database_def)

section \<open>The batches of a centra\<close>

text \<open>
  \<open>get_all_batches_from_centra\<close> returns the empty list for a centra without batches and
  raises as soon as one row matches.
\<close>

lemma get_all_batches_from_centra_cases:
  "get_all_batches_from_centra centra_id s =
     (if \<exists>r \<in> set (tbl_batch_id s). b_Centra_ID r = centra_id
      then Inl (ValidationError ''Batch'' [''RawWeight'', ''InTimeRaw'', ''Status'', ''Centra_ID''])
      else Inr [])"
proof (cases "filter (\<lambda>r. b_Centra_ID r = centra_id) (tbl_batch_id s)")
  case Nil
  then have "\<forall>r \<in> set (tbl_batch_id s). b_Centra_ID r \<noteq> centra_id"
    by (simp add: filter_empty_conv)
  with Nil show ?thesis by (simp add: get_all_batches_from_centra_def)
next
  case (Cons x xs)
  then have "x \<in> set (filter (\<lambda>r. b_Centra_ID r = centra_id) (tbl_batch_id s))" by simp
  then have "\<exists>r \<in> set (tbl_batch_id s). b_Centra_ID r = centra_id" by auto
  with Cons show ?thesis
    by (simp add: get_all_batches_from_centra_def Batch_init_only_Batch_ID)
qed

text \<open>
  Claim C9: \<open>GET /centra/{id}/batches\<close> returns one record per batch of the centra,
  holding the row's \<open>Batch_ID\<close> and every other field absent. The code does otherwise
  whenever the centra has a batch: for centra 1 of \<open>store_unlinked\<close>, whose one batch
  belongs to it, the handler raises a validation error and returns no record.
\<close>

theorem get_all_batches_from_centra_raises:
  "get_all_batches_from_centra 1 store_unlinked =
     Inl (ValidationError ''Batch'' [''RawWeight'', ''InTimeRaw'', ''Status'', ''Centra_ID''])"
  by (simp add: get_all_batches_from_centra_def Batch_init_only_Batch_ID store_unlinked_def
        batch1_def)

section \<open>A new batch, read back\<close>

text \<open>
  The per-stage endpoints cannot show a stage that is not set: their response models
  require all three fields, so \<open>GET /batch/{id}/wet\<close> on a batch just created raises.
\<close>

lemma get_wet_weight_fresh:
  "get_wet_weight (lastrowid (seq_batch_id s) (map b_Batch_ID (tbl_batch_id s)))
        (snd (add_batch batch s)) =
     Inl (ValidationError ''WetWeight'' [''WetWeight'', ''InTimeWet'', ''OutTimeWet''])"
proof -
  let ?i = "lastrowid (seq_batch_id s) (map b_Batch_ID (tbl_batch_id s))"
  have none: "filter (\<lambda>r. b_Batch_ID r = ?i) (tbl_batch_id s) = []"
    by (rule filter_lastrowid)
  show ?thesis
    by (simp add: get_wet_weight_def add_batch_def Let_def none WetWeight_init_def)
qed


section \<open>A stage, written and read back\<close>



section \<open>Deleting\<close>









section \<open>A 404 leaves the store as it was\<close>

text \<open>
  Claim C10: whenever a handler answers 404, the store is as it was before the request.
  The handlers that only read return no store at all; of the handlers that write, five
  can raise \<open>HTTPException(404, ...)\<close>, and each of them returns the store it was given
  when it does.
\<close>

theorem not_found_changes_nothing:
  "(fst (update_delivery_status batch_id status s) = Inl (HTTPException 404 d1)
      \<longrightarrow> snd (update_delivery_status batch_id status s) = s)
   \<and> (fst (update_centra centra_id centra s) = Inl (HTTPException 404 d2)
      \<longrightarrow> snd (update_centra centra_id centra s) = s)
   \<and> (fst (delete_centra centra_id s) = Inl (HTTPException 404 d3)
      \<longrightarrow> snd (delete_centra centra_id s) = s)
   \<and> (fst (delete_package package_id s) = Inl (HTTPException 404 d4)
      \<longrightarrow> snd (delete_package package_id s) = s)
   \<and> (fst (delete_batch batch_id s) = Inl (HTTPException 404 d5)
      \<longrightarrow> snd (delete_batch batch_id s) = s)"
proof -
  have 1: "fst (update_delivery_status batch_id status s) = Inl (HTTPException 404 d1)
      \<longrightarrow> snd (update_delivery_status batch_id status s) = s"
    by (simp add: update_delivery_status_def split: option.splits)
  have 2: "fst (update_centra centra_id centra s) = Inl (HTTPException 404 d2)
      \<longrightarrow> snd (update_centra centra_id centra s) = s"
    by (simp add: update_centra_def split: option.splits sum.splits)
  have 3: "fst (delete_centra centra_id s) = Inl (HTTPException 404 d3)
      \<longrightarrow> snd (delete_centra centra_id s) = s"
    by (simp add: delete_centra_def split: option.splits)
  have 4: "fst (delete_package package_id s) = Inl (HTTPException 404 d4)
      \<longrightarrow> snd (delete_package package_id s) = s"
    by (simp add: delete_package_def split: option.splits)
  have 5: "fst (delete_batch batch_id s) = Inl (HTTPException 404 d5)
      \<longrightarrow> snd (delete_batch batch_id s) = s"
    by (simp add: delete_batch_def Batch_init_row_kwargs split: option.splits)
  from 1 2 3 4 5 show ?thesis by blast
qed

theorem not_found_changes_nothing_witness:
  "fst (update_delivery_status 7 \<lparr> us_Status = ''shipped'' \<rparr> store_unlinked)
     = Inl (HTTPException 404 ''Batch not found'')
   \<and> snd (update_delivery_status 7 \<lparr> us_Status = ''shipped'' \<rparr> store_unlinked) = store_unlinked
   \<and> fst (update_centra 7 \<lparr> uc_CentraName = Set (Some ''X''), uc_CentraAddress = Unset,
                            uc_NumberOfEmployees = Unset \<rparr> store_unlinked)
     = Inl (HTTPException 404 ''Centra not found'')
   \<and> snd (update_centra 7 \<lparr> uc_CentraName = Set (Some ''X''), uc_CentraAddress = Unset,
                            uc_NumberOfEmployees = Unset \<rparr> store_unlinked) = store_unlinked
   \<and> fst (delete_centra 7 store_unlinked) = Inl (HTTPException 404 ''Centra not found'')
   \<and> snd (delete_centra 7 store_unlinked) = store_unlinked
   \<and> fst (delete_package 7 store_unlinked) = Inl (HTTPException 404 ''Package not found'')
   \<and> snd (delete_package 7 store_unlinked) = store_unlinked
   \<and> fst (delete_batch 7 store_unlinked) = Inl (HTTPException 404 ''Batch not found'')
   \<and> snd (delete_batch 7 store_unlinked) = store_unlinked"
proof -
  have 1: "fst (update_delivery_status 7 \<lparr> us_Status = ''shipped'' \<rparr> store_unlinked)
     = Inl (HTTPException 404 ''Batch not found'')"
    by (simp add: update_delivery_status_def store_unlinked_def batch1_def)
  have 2: "fst (update_centra 7 \<lparr> uc_CentraName = Set (Some ''X''), uc_CentraAddress = Unset,
                            uc_NumberOfEmployees = Unset \<rparr> store_unlinked)
     = Inl (HTTPException 404 ''Centra not found'')"
    by (simp add: update_centra_def store_unlinked_def centra1_def)
  have 3: "fst (delete_centra 7 store_unlinked) = Inl (HTTPException 404 ''Centra not found'')"
    by (simp add: delete_centra_def store_unlinked_def centra1_def)
  have 4: "fst (delete_package 7 store_unlinked) = Inl (HTTPException 404 ''Package not found'')"
    by (simp add: delete_package_def store_unlinked_def package1_def)
  have 5: "fst (delete_batch 7 store_unlinked) = Inl (HTTPException 404 ''Batch not found'')"
    by (simp add: delete_batch_def store_unlinked_def batch1_def)
  from not_found_changes_nothing [of 7 "\<lparr> us_Status = ''shipped'' \<rparr>" store_unlinked
      "''Batch not found''" 7
      "\<lparr> uc_CentraName = Set (Some ''X''), uc_CentraAddress = Unset, uc_NumberOfEmployees = Unset \<rparr>"
      "''Centra not found''" "''Centra not found''" 7 "''Package not found''" "''Batch not found''"]
    1 2 3 4 5
  show ?thesis by simp
qed

section \<open>The recent batches of a centra\<close>





section \<open>The partial update of a centra\<close>




text \<open>
  A \<open>null\<close> among the fields set makes the loop raise \<open>IntegrityError\<close> when a row has
  the ID: the updates before it keep the keys, so the row is still there when the \<open>NULL\<close>
  is written.
\<close>

lemma update_centra_column_Inl:
  "update_centra_column item k rows = Inl e \<Longrightarrow> \<exists>m. e = IntegrityError m"
  by (cases item) (auto split: option.splits if_splits)

lemma update_centra_column_keys:
  "update_centra_column item k rows = Inr rows' \<Longrightarrow> map c_Centra_ID rows' = map c_Centra_ID rows"
  by (cases item) (auto split: option.splits if_splits)

lemma update_centra_column_null:
  assumes "k \<in> set (map c_Centra_ID rows)"
    and "item = CentraName None \<or> item = CentraAddress None \<or> item = NumberOfEmployees None"
  shows "\<exists>m. update_centra_column item k rows = Inl (IntegrityError m)"
  using assms by auto

lemma update_centra_loop_null_item:
  assumes "CentraName None \<in> set items \<or> CentraAddress None \<in> set items
            \<or> NumberOfEmployees None \<in> set items"
    and "k \<in> set (map c_Centra_ID rows)"
  shows "\<exists>m. update_centra_loop items k rows = Inl (IntegrityError m)"
  using assms
proof (induction items arbitrary: rows)
  case Nil
  then show ?case by simp
next
  case (Cons item items)
  show ?case
  proof (cases "update_centra_column item k rows")
    case (Inl e)
    with update_centra_column_Inl [OF Inl] show ?thesis by auto
  next
    case (Inr rows')
    with update_centra_column_null [OF Cons.prems(2), of item]
    have "\<not> (item = CentraName None \<or> item = CentraAddress None \<or> item = NumberOfEmployees None)"
      by auto
    with Cons.prems(1) have rest: "CentraName None \<in> set items \<or> CentraAddress None \<in> set items
            \<or> NumberOfEmployees None \<in> set items" by auto
    from update_centra_column_keys [OF Inr] Cons.prems(2)
    have "k \<in> set (map c_Centra_ID rows')" by simp
    from Cons.IH [OF rest this] Inr show ?thesis by simp
  qed
qed

lemma dict_exclude_unset_null:
  assumes "sets_null (uc_CentraName centra) \<or> sets_null (uc_CentraAddress centra)
            \<or> sets_null (uc_NumberOfEmployees centra)"
  shows "CentraName None \<in> set (dict_exclude_unset centra)
       \<or> CentraAddress None \<in> set (dict_exclude_unset centra)
       \<or> NumberOfEmployees None \<in> set (dict_exclude_unset centra)"
  using assms
  by (cases "uc_CentraName centra" rule: sets_null.cases;
      cases "uc_CentraAddress centra" rule: sets_null.cases;
      cases "uc_NumberOfEmployees centra" rule: sets_null.cases)
     (simp_all add: dict_exclude_unset_def)




lemma update_centra_null:
  assumes old: "fetchone (filter (\<lambda>r. c_Centra_ID r = i) (tbl_centra s)) = Some old"
    and null: "sets_null (uc_CentraName centra) \<or> sets_null (uc_CentraAddress centra)
            \<or> sets_null (uc_NumberOfEmployees centra)"
  shows "\<exists>m. update_centra i centra s = (Inl (IntegrityError m), s)"
proof -
  from fetchone_filter_Some [OF old] have "i \<in> set (map c_Centra_ID (tbl_centra s))" by auto
  from update_centra_loop_null_item [OF dict_exclude_unset_null [OF null] this]
  obtain m where "update_centra_loop (dict_exclude_unset centra) i (tbl_centra s)
                    = Inl (IntegrityError m)" by blast
  then show ?thesis by (simp add: update_centra_def old)
qed




end
